theory Spec2Isabelle
  imports Main "HOL-Library.AList" "HOL-Library.Sublist"
begin

section \<open>Values shared by the validator helpers\<close>

text \<open>
  A value produced by \<^verbatim>\<open>json.loads\<close>. Python's \<^verbatim>\<open>dict\<close> keeps insertion order, so a
  decoded object is an association list; its keys are distinct in every decoded value.
  A float is kept as the numeric literal it was read from: no operation of this module
  computes with it or compares two numbers.
\<close>

datatype json =
    JNull
  | JBool bool
  | JInt int
  | JFloat string
  | JStr string
  | JList "json list"
  | JDict "(string \<times> json) list"

text \<open>The exceptions that can leave the functions of this module.\<close>

datatype error =
    ValueError string
  | AttributeError
  | TypeError
  | RecursionError

text \<open>
  What \<^verbatim>\<open>json.loads\<close> raises when it does not return: a \<^verbatim>\<open>JSONDecodeError\<close> with its
  message, or an exception of another class (a \<^verbatim>\<open>RecursionError\<close> on deeply nested text,
  a plain \<^verbatim>\<open>ValueError\<close> on an integer literal beyond the digit limit).
\<close>

datatype loads_failure =
    JSONDecodeError string
  | Uncaught error

text \<open>\<^verbatim>\<open>x.get(key, default)\<close>: only a dict has the method.\<close>

fun py_get :: "json \<Rightarrow> string \<Rightarrow> json \<Rightarrow> error + json" where
  "py_get (JDict d) k dflt = Inr (case map_of d k of None \<Rightarrow> dflt | Some v \<Rightarrow> v)"
| "py_get _ k dflt = Inl AttributeError"

text \<open>
  \<^verbatim>\<open>sep.join(items)\<close> on a list of strings that is already known to hold strings only.
\<close>

fun join_strs :: "string \<Rightarrow> string list \<Rightarrow> string" where
  "join_strs sep [] = []"
| "join_strs sep [s] = s"
| "join_strs sep (s # t # ss) = s @ sep @ join_strs sep (t # ss)"

text \<open>
  What iterating a decoded value yields: the elements of a list, the keys of a dict, the
  one-character strings of a string; any other value is not iterable.
\<close>

fun py_iter :: "json \<Rightarrow> error + json list" where
  "py_iter (JList xs) = Inr xs"
| "py_iter (JDict d) = Inr (map (\<lambda>kv. JStr (fst kv)) d)"
| "py_iter (JStr s) = Inr (map (\<lambda>c. JStr [c]) s)"
| "py_iter _ = Inl TypeError"

fun as_strs :: "json list \<Rightarrow> string list option" where
  "as_strs [] = Some []"
| "as_strs (JStr s # xs) = (case as_strs xs of None \<Rightarrow> None | Some ss \<Rightarrow> Some (s # ss))"
| "as_strs (_ # xs) = None"

text \<open>
  \<^verbatim>\<open>sep.join(x)\<close>: \<^verbatim>\<open>x\<close> must be iterable and every item must be a string.
\<close>

definition py_join :: "string \<Rightarrow> json \<Rightarrow> error + string" where
  "py_join sep x =
     (case py_iter x of
        Inl e \<Rightarrow> Inl e
      | Inr items \<Rightarrow>
          (case as_strs items of
             None \<Rightarrow> Inl TypeError
           | Some ss \<Rightarrow> Inr (join_strs sep ss)))"

section \<open>parse_issue\<close>

text \<open>
  The dict literal is evaluated key by key; the result keeps the keys in that order.
\<close>

definition parse_issue :: "json \<Rightarrow> error + (string \<times> json) list" where
  "parse_issue issue =
     (case py_get issue ''code'' (JStr '''') of Inl e \<Rightarrow> Inl e | Inr code \<Rightarrow>
     (case py_get issue ''severity'' (JStr '''') of Inl e \<Rightarrow> Inl e | Inr severity \<Rightarrow>
     (case py_get issue ''location'' (JStr '''') of Inl e \<Rightarrow> Inl e | Inr location \<Rightarrow>
     (case py_get issue ''affects'' (JList []) of Inl e \<Rightarrow> Inl e | Inr aff \<Rightarrow>
     (case py_join '', '' aff of Inl e \<Rightarrow> Inl e | Inr affects \<Rightarrow>
     (case py_get issue ''rule'' (JStr '''') of Inl e \<Rightarrow> Inl e | Inr rule \<Rightarrow>
        Inr [(''code'', code), (''severity'', severity), (''location'', location),
             (''affects'', JStr affects), (''rule'', rule)]))))))"

text \<open>The value a field of a raw issue contributes to the row: the field or the default.\<close>

definition field :: "(string \<times> json) list \<Rightarrow> string \<Rightarrow> json" where
  "field d k = (case map_of d k of None \<Rightarrow> JStr '''' | Some v \<Rightarrow> v)"

section \<open>Tables\<close>

text \<open>
  A \<^verbatim>\<open>pandas.DataFrame\<close>: the column labels in order, and the rows, each holding one cell
  per column; a cell without a value (\<^verbatim>\<open>NaN\<close>) is \<open>None\<close>.
\<close>

record dataframe =
  columns :: "string list"
  rows :: "json option list list"

text \<open>\<^verbatim>\<open>pd.DataFrame()\<close>: no column and no row.\<close>

definition DataFrame_empty :: dataframe where
  "DataFrame_empty = \<lparr>columns = [], rows = []\<rparr>"

text \<open>\<^verbatim>\<open>pd.DataFrame([parsed])\<close>: the keys of the dict are the columns, its values the one row.\<close>

definition DataFrame_record :: "(string \<times> json) list \<Rightarrow> dataframe" where
  "DataFrame_record parsed =
     \<lparr>columns = map fst parsed, rows = [map (\<lambda>kv. Some (snd kv)) parsed]\<rparr>"

text \<open>A row laid out for another list of columns; a column it did not have gets no value.\<close>

definition reindex :: "string list \<Rightarrow> string list \<Rightarrow> json option list \<Rightarrow> json option list" where
  "reindex old new r =
     map (\<lambda>c. case map_of (zip old r) c of None \<Rightarrow> None | Some v \<Rightarrow> v) new"

text \<open>
  \<^verbatim>\<open>pd.concat([a, b], ignore_index=True)\<close>: the columns of \<open>a\<close> followed by the new ones of
  \<open>b\<close>, the rows of \<open>a\<close> followed by the rows of \<open>b\<close>.
\<close>

definition pd_concat :: "dataframe \<Rightarrow> dataframe \<Rightarrow> dataframe" where
  "pd_concat a b =
     (let cols = columns a @ filter (\<lambda>c. c \<notin> set (columns a)) (columns b)
      in \<lparr>columns = cols,
          rows = map (reindex (columns a) cols) (rows a) @ map (reindex (columns b) cols) (rows b)\<rparr>)"

section \<open>parse_validator_output\<close>

text \<open>The body of the \<^verbatim>\<open>for issue in issues_list\<close> loop, on the items still to visit.\<close>

fun issues_loop :: "json list \<Rightarrow> dataframe \<Rightarrow> error + dataframe" where
  "issues_loop [] df = Inr df"
| "issues_loop (issue # rest) df =
     (case py_get issue ''severity'' JNull of
        Inl e \<Rightarrow> Inl e
      | Inr s \<Rightarrow>
          if s = JStr ''error'' then
            (case parse_issue issue of
               Inl e \<Rightarrow> Inl e
             | Inr parsed \<Rightarrow> issues_loop rest (pd_concat df (DataFrame_record parsed)))
          else
            (case py_get issue ''severity'' JNull of
               Inl e \<Rightarrow> Inl e
             | Inr s' \<Rightarrow>
                 if s' = JStr ''warning'' then
                   (case parse_issue issue of
                      Inl e \<Rightarrow> Inl e
                    | Inr parsed \<Rightarrow> issues_loop rest (pd_concat df (DataFrame_record parsed)))
                 else issues_loop rest df))"

text \<open>
  \<^verbatim>\<open>json.loads\<close> is a parameter: it gives the decoded value, or what it raises (\<open>Inl\<close>).
  Only a \<^verbatim>\<open>JSONDecodeError\<close> is caught by the handler; any other exception leaves the
  function. The result is what was printed, and either the exception that leaves the
  function or the value returned, where \<open>None\<close> is Python's \<^verbatim>\<open>None\<close>, returned when the
  function falls off its end after the handler.
\<close>

definition parse_validator_output ::
    "(string \<Rightarrow> loads_failure + json) \<Rightarrow> string \<Rightarrow>
       string list \<times> (error + dataframe option)" where
  "parse_validator_output loads output =
     (case loads output of
        Inl (JSONDecodeError e) \<Rightarrow> ([''Error parsing JSON: '' @ e], Inr None)
      | Inl (Uncaught x) \<Rightarrow> ([], Inl x)
      | Inr data \<Rightarrow>
          ([],
           (case py_get data ''issues'' (JDict []) of Inl e \<Rightarrow> Inl e | Inr issues \<Rightarrow>
           (case py_get issues ''issues'' (JList []) of Inl e \<Rightarrow> Inl e | Inr issues_list \<Rightarrow>
           (case py_iter issues_list of Inl e \<Rightarrow> Inl e | Inr items \<Rightarrow>
           (case issues_loop items DataFrame_empty of Inl e \<Rightarrow> Inl e | Inr df \<Rightarrow>
              Inr (Some df)))))))"

subsection \<open>The vocabulary of the report\<close>

text \<open>The issue sequence of a decoded report: both levels may be absent.\<close>

definition issue_sequence :: "json \<Rightarrow> json list option" where
  "issue_sequence data =
     (case data of
        JDict outer \<Rightarrow>
          (case map_of outer ''issues'' of
             None \<Rightarrow> Some []
           | Some (JDict inner) \<Rightarrow>
               (case map_of inner ''issues'' of
                  None \<Rightarrow> Some []
                | Some (JList xs) \<Rightarrow> Some xs
                | Some _ \<Rightarrow> None)
           | Some _ \<Rightarrow> None)
      | _ \<Rightarrow> None)"

fun is_dict :: "json \<Rightarrow> bool" where
  "is_dict (JDict d) = True"
| "is_dict _ = False"

text \<open>An issue is retained when its severity is the string error or the string warning.\<close>

fun retained :: "json \<Rightarrow> bool" where
  "retained (JDict d) =
     (map_of d ''severity'' = Some (JStr ''error'') \<or> map_of d ''severity'' = Some (JStr ''warning''))"
| "retained _ = False"

text \<open>The affects field of an issue is absent or a list of strings.\<close>

fun affects_strings :: "json \<Rightarrow> bool" where
  "affects_strings (JDict d) =
     (case map_of d ''affects'' of
        None \<Rightarrow> True
      | Some (JList xs) \<Rightarrow> as_strs xs \<noteq> None
      | Some _ \<Rightarrow> False)"
| "affects_strings _ = False"

text \<open>The cells of the row an issue is normalized to.\<close>

definition row_of :: "json \<Rightarrow> json option list" where
  "row_of issue =
     (case parse_issue issue of Inl e \<Rightarrow> [] | Inr parsed \<Rightarrow> map (\<lambda>kv. Some (snd kv)) parsed)"

definition issue_columns :: "string list" where
  "issue_columns = [''code'', ''severity'', ''location'', ''affects'', ''rule'']"

text \<open>
  \<^verbatim>\<open>json.loads\<close> at the texts of a table, for examples: each text of the table with the
  value it decodes to, or with what \<^verbatim>\<open>json.loads\<close> raises at it. Nothing is said about any
  other text.
\<close>

definition loads_table :: "(string \<times> json) list \<Rightarrow> string \<Rightarrow> loads_failure + json" where
  "loads_table tbl text =
     (case map_of tbl text of None \<Rightarrow> undefined | Some v \<Rightarrow> Inr v)"

definition loads_raising ::
    "(string \<times> loads_failure) list \<Rightarrow> string \<Rightarrow> loads_failure + json" where
  "loads_raising tbl text =
     (case map_of tbl text of None \<Rightarrow> undefined | Some f \<Rightarrow> Inl f)"

text \<open>
  The tables the loop passes through: the empty one, or rows under the five columns.
\<close>

definition table_ok :: "dataframe \<Rightarrow> bool" where
  "table_ok df =
     (df = DataFrame_empty \<or>
      (columns df = issue_columns \<and> rows df \<noteq> [] \<and> (\<forall>r\<in>set (rows df). length r = 5)))"

section \<open>The host's directory listing\<close>

text \<open>
  What a path names: a regular file, a directory with its entries in the order the host
  enumerates them, or something else (a socket, a dangling link). Links are followed, as
  \<^verbatim>\<open>os.path.isfile\<close> and \<^verbatim>\<open>glob\<close> do.
\<close>

datatype node = File | Dir "(string \<times> node) list" | Other

text \<open>
  The host, as \<^verbatim>\<open>glob\<close> sees it. \<open>scandir h p\<close> is the listing of the directory that
  the path text \<open>p\<close> names, empty when \<open>p\<close> names no readable directory. A directory part
  with wildcard characters is expanded by \<^verbatim>\<open>glob\<close> itself, by rules that no pattern of this
  module spells out: \<open>iglob_dirs h p\<close> stands for the directories such a part matches, each
  with the path text \<^verbatim>\<open>glob\<close> gives it. The tree does not change during a call.
\<close>

record host =
  scandir :: "string \<Rightarrow> (string \<times> node) list"
  iglob_dirs :: "string \<Rightarrow> (string \<times> (string \<times> node) list) list"

fun isfile :: "node \<Rightarrow> bool" where
  "isfile File = True"
| "isfile _ = False"

fun isdir :: "node \<Rightarrow> bool" where
  "isdir (Dir es) = True"
| "isdir _ = False"

text \<open>\<^verbatim>\<open>s.endswith(suf)\<close>.\<close>

definition endswith :: "string \<Rightarrow> string \<Rightarrow> bool" where
  "endswith s suf = suffix suf s"

text \<open>\<^verbatim>\<open>glob.has_magic\<close>: one of the characters \<^verbatim>\<open>*\<close>, \<^verbatim>\<open>?\<close>, \<^verbatim>\<open>[\<close> occurs.\<close>

definition has_magic :: "string \<Rightarrow> bool" where
  "has_magic s = list_ex (\<lambda>c. c = CHR ''*'' \<or> c = CHR ''?'' \<or> c = CHR ''['') s"

text \<open>\<^verbatim>\<open>glob._ishidden\<close>: the name starts with a dot (an entry name is never empty).\<close>

fun ishidden :: "string \<Rightarrow> bool" where
  "ishidden [] = False"
| "ishidden (c # cs) = (c = CHR ''.'')"

text \<open>
  \<^verbatim>\<open>posixpath.split\<close>: the text up to and including the last slash, and the rest; the
  trailing slashes of the first part are removed unless it consists of slashes only.
\<close>

definition posix_split :: "string \<Rightarrow> string \<times> string" where
  "posix_split p =
     (let tail = rev (takeWhile (\<lambda>c. c \<noteq> CHR ''/'') (rev p));
          head = rev (dropWhile (\<lambda>c. c \<noteq> CHR ''/'') (rev p))
      in (if head \<noteq> [] \<and> \<not> list_all (\<lambda>c. c = CHR ''/'') head
          then rev (dropWhile (\<lambda>c. c = CHR ''/'') (rev head)) else head, tail))"

text \<open>\<^verbatim>\<open>posixpath.join\<close> of two parts.\<close>

definition posix_join :: "string \<Rightarrow> string \<Rightarrow> string" where
  "posix_join a b =
     (if b \<noteq> [] \<and> hd b = CHR ''/'' then b
      else if a = [] \<or> last a = CHR ''/'' then a @ b
      else a @ ''/'' @ b)"

text \<open>
  \<^verbatim>\<open>fnmatch\<close> for the two name patterns of this module, \<^verbatim>\<open>*\<close> and \<^verbatim>\<open>sub-*\<close>: a literal text
  followed by one star matches the names that start with the text.
\<close>

definition fnmatch :: "string \<Rightarrow> string \<Rightarrow> bool" where
  "fnmatch name pat = prefix (butlast pat) name"

text \<open>
  \<^verbatim>\<open>glob._glob1\<close> on a listing: with \<open>dironly\<close> only directories are listed; hidden names
  are left out unless the pattern itself starts with a dot; then the names are matched.
\<close>

definition glob1 :: "(string \<times> node) list \<Rightarrow> string \<Rightarrow> bool \<Rightarrow> (string \<times> node) list" where
  "glob1 listing pat dironly =
     filter (\<lambda>e. (if dironly then isdir (snd e) else True) \<and>
                 (if ishidden pat then True else \<not> ishidden (fst e)) \<and>
                 fnmatch (fst e) pat) listing"

text \<open>The directories that the directory part of a pattern stands for.\<close>

definition glob_dirs :: "host \<Rightarrow> string \<Rightarrow> string \<Rightarrow> (string \<times> (string \<times> node) list) list" where
  "glob_dirs h pathname dirname =
     (if dirname \<noteq> pathname \<and> has_magic dirname then iglob_dirs h dirname
      else [(dirname, scandir h dirname)])"

text \<open>
  \<^verbatim>\<open>glob.glob(pathname)\<close> for a pathname whose last segment is \<^verbatim>\<open>*\<close> or \<^verbatim>\<open>sub-*\<close>. Each
  path comes with what it names, which is what a later \<^verbatim>\<open>os.path.isfile\<close> of it sees.
\<close>

definition glob_names :: "host \<Rightarrow> string \<Rightarrow> bool \<Rightarrow> (string \<times> node) list" where
  "glob_names h pathname dironly =
     (let dirname = fst (posix_split pathname); basename = snd (posix_split pathname)
      in concat (map (\<lambda>d. map (\<lambda>e. (posix_join (fst d) (fst e), snd e))
                               (glob1 (snd d) basename dironly))
                     (glob_dirs h pathname dirname)))"

text \<open>
  \<^verbatim>\<open>glob.glob(pathname)\<close> for a pathname that ends with a slash after such a segment: the
  directory part is expanded to directories only, and each is joined with the empty last
  segment.
\<close>

definition glob_slash :: "host \<Rightarrow> string \<Rightarrow> (string \<times> node) list" where
  "glob_slash h pathname =
     (let dirname = fst (posix_split pathname); basename = snd (posix_split pathname)
      in map (\<lambda>e. (posix_join (fst e) basename, snd e))
             (filter (\<lambda>e. isdir (snd e)) (glob_names h dirname True)))"

text \<open>
  \<^verbatim>\<open>glob._rlistdir\<close>: the relative paths of everything beneath a directory, hidden names
  and what lies beneath them left out.
\<close>

fun rlistdir :: "node \<Rightarrow> (string \<times> node) list" where
  "rlistdir (Dir es) =
     concat (map (\<lambda>e. if ishidden (fst e) then []
                       else (fst e, snd e) #
                            map (\<lambda>y. (posix_join (fst e) (fst y), snd y)) (rlistdir (snd e)))
                 es)"
| "rlistdir File = []"
| "rlistdir Other = []"

text \<open>\<^verbatim>\<open>glob._glob2\<close>: the directory itself, as the empty relative path, and all beneath it.\<close>

definition glob2 :: "node \<Rightarrow> (string \<times> node) list" where
  "glob2 d = (if isdir d then [([], d)] else []) @ rlistdir d"

text \<open>
  \<^verbatim>\<open>glob.glob(pathname, recursive=True)\<close> for a pathname whose last segment is \<^verbatim>\<open>**\<close>, where
  \<open>d\<close> is what the directory part names when it is taken literally.
\<close>

definition glob_recursive :: "host \<Rightarrow> string \<Rightarrow> node \<Rightarrow> (string \<times> node) list" where
  "glob_recursive h pathname d =
     (let dirname = fst (posix_split pathname)
      in concat (map (\<lambda>x. map (\<lambda>e. (posix_join (fst x) (fst e), snd e)) (glob2 (snd x)))
                     (if dirname \<noteq> pathname \<and> has_magic dirname
                      then map (\<lambda>x. (fst x, Dir (snd x))) (iglob_dirs h dirname)
                      else [(dirname, d)])))"

text \<open>The segments of a path text between its slashes.\<close>

fun split_slash :: "string \<Rightarrow> string list" where
  "split_slash [] = [[]]"
| "split_slash (c # cs) =
     (if c = CHR ''/'' then [] # split_slash cs
      else (case split_slash cs of [] \<Rightarrow> [[c]] | s # ss \<Rightarrow> (c # s) # ss))"

text \<open>
  \<^verbatim>\<open>pathlib.PurePath(p).name\<close>: the last segment that is neither empty nor a single dot,
  the empty string when there is none.
\<close>

definition purepath_name :: "string \<Rightarrow> string" where
  "purepath_name p =
     (case filter (\<lambda>s. s \<noteq> [] \<and> s \<noteq> ''.'') (split_slash p) of
        [] \<Rightarrow> []
      | s # ss \<Rightarrow> last (s # ss))"

section \<open>build_subject_paths\<close>

text \<open>
  The manifest is the dict the loop fills: an assignment to a key already present replaces
  its value in place, any other appends the key.
\<close>

definition subject_files :: "host \<Rightarrow> string list \<Rightarrow> (string \<times> node) \<Rightarrow> string list" where
  "subject_files h root_files sub =
     map fst (filter (\<lambda>x. isfile (snd x)) (glob_recursive h (fst sub @ ''**'') (snd sub)))
     @ root_files"

definition no_subjects_message :: string where
  "no_subjects_message =
     ''Couldn't find any subjects in the specified directory:'' @ [CHR 0x0A]"

definition build_subject_paths :: "host \<Rightarrow> string \<Rightarrow> error + (string \<times> string list) list" where
  "build_subject_paths h path =
     (let bids_dir = (if endswith path ''/'' then path else path @ ''/'');
          root_files = map fst (filter (\<lambda>x. isfile (snd x)) (glob_names h (bids_dir @ ''*'') False));
          bids_dir = bids_dir @ ''sub-*/'';
          subjects = glob_slash h bids_dir
      in if length subjects < 1
         then Inl (ValueError (no_subjects_message @ bids_dir))
         else Inr (foldl (\<lambda>subjects_dict sub.
                     AList.update (purepath_name (fst sub)) (subject_files h root_files sub)
                       subjects_dict)
                   [] subjects))"

subsection \<open>The vocabulary of the dataset\<close>






text \<open>A host for examples: one dataset directory, listed under the path text \<open>root\<close>.\<close>

definition host_of :: "string \<Rightarrow> (string \<times> node) list \<Rightarrow> host" where
  "host_of root listing =
     \<lparr>scandir = (\<lambda>p. if p = root then listing else []), iglob_dirs = (\<lambda>p. [])\<rparr>"







section \<open>get_val_dictionary\<close>

definition get_val_dictionary :: "(string \<times> (string \<times> string) list) list" where
  "get_val_dictionary =
     [(''location'', [(''Description'', ''File with the validation issue.'')]),
      (''code'', [(''Description'', ''Code of the validation issue.'')]),
      (''subCode'', [(''Description'', ''Subcode providing additional issue details.'')]),
      (''severity'', [(''Description'', ''Severity of the issue (e.g., warning, error).'')]),
      (''rule'', [(''Description'', ''Validation rule that triggered the issue.'')])]"

text \<open>The description a column name resolves to in a catalog, if any.\<close>

definition description :: "(string \<times> (string \<times> string) list) list \<Rightarrow> string \<Rightarrow> string option" where
  "description cat col =
     (case map_of cat col of None \<Rightarrow> None | Some entry \<Rightarrow> map_of entry ''Description'')"

text \<open>
  A dataset for examples, listed under the path text \<^verbatim>\<open>ds\<close>: two regular files at the
  root, one of them hidden, and one subject directory.
\<close>

definition sample_listing :: "(string \<times> node) list" where
  "sample_listing =
     [(''.bidsignore'', File), (''README'', File),
      (''sub-01'', Dir [(''anat'', Dir [(''T1w.nii'', File)])])]"

definition sample_host :: host where
  "sample_host = host_of ''ds'' sample_listing"

text \<open>The report of four issues with severities error, warning, info, error.\<close>

definition sample_issues :: "json list" where
  "sample_issues =
     [JDict [(''severity'', JStr ''error''), (''code'', JStr ''A'')],
      JDict [(''severity'', JStr ''warning''), (''code'', JStr ''B'')],
      JDict [(''severity'', JStr ''info''), (''code'', JStr ''C'')],
      JDict [(''severity'', JStr ''error''), (''code'', JStr ''D'')]]"

definition sample_report :: json where
  "sample_report = JDict [(''issues'', JDict [(''issues'', JList sample_issues)])]"

section \<open>Properties of the report flattener\<close>

lemma parse_issue_keys: "parse_issue i = Inr parsed \<Longrightarrow> map fst parsed = issue_columns"
  by (auto simp: parse_issue_def issue_columns_def split: sum.splits)

lemma row_of_length: "parse_issue i = Inr parsed \<Longrightarrow> length (row_of i) = 5"
  by (auto simp: row_of_def parse_issue_def split: sum.splits)

lemma reindex_same:
  assumes "length r = 5"
  shows "reindex issue_columns issue_columns r = r"
proof -
  from assms obtain a b c d e where "r = [a, b, c, d, e]"
    by (auto simp: length_Suc_conv eval_nat_numeral)
  then show ?thesis
    by (simp add: reindex_def issue_columns_def)
qed

lemma concat_first:
  assumes "parse_issue i = Inr parsed"
  shows "pd_concat DataFrame_empty (DataFrame_record parsed) = \<lparr>columns = issue_columns, rows = [row_of i]\<rparr>"
proof -
  have k: "map fst parsed = issue_columns" using assms by (rule parse_issue_keys)
  have r: "map (\<lambda>kv. Some (snd kv)) parsed = row_of i" using assms by (simp add: row_of_def)
  have l: "length (row_of i) = 5" using assms by (rule row_of_length)
  show ?thesis
    by (simp add: pd_concat_def DataFrame_empty_def DataFrame_record_def k r reindex_same [OF l])
qed

lemma concat_next:
  assumes "parse_issue i = Inr parsed" and "columns df = issue_columns"
    and "\<forall>r\<in>set (rows df). length r = 5"
  shows "pd_concat df (DataFrame_record parsed) = \<lparr>columns = issue_columns, rows = rows df @ [row_of i]\<rparr>"
proof -
  have k: "map fst parsed = issue_columns" using assms(1) by (rule parse_issue_keys)
  have r: "map (\<lambda>kv. Some (snd kv)) parsed = row_of i" using assms(1) by (simp add: row_of_def)
  have l: "length (row_of i) = 5" using assms(1) by (rule row_of_length)
  have m: "map (reindex issue_columns issue_columns) (rows df) = rows df"
    using assms(3) by (simp add: reindex_same map_idI)
  show ?thesis
    by (simp add: pd_concat_def DataFrame_record_def k r assms(2) m reindex_same [OF l])
qed

lemma concat_any:
  assumes "parse_issue i = Inr parsed" and "table_ok df"
  shows "pd_concat df (DataFrame_record parsed) = \<lparr>columns = issue_columns, rows = rows df @ [row_of i]\<rparr>"
  using assms concat_first [OF assms(1)] concat_next [OF assms(1)]
  by (auto simp: table_ok_def DataFrame_empty_def)

lemma issues_loop_rows:
  assumes "\<forall>i\<in>set xs. is_dict i" and "\<forall>i\<in>set xs. retained i \<longrightarrow> (\<exists>p. parse_issue i = Inr p)"
    and "table_ok df"
  shows "issues_loop xs df =
    Inr \<lparr>columns = (if filter retained xs = [] then columns df else issue_columns),
         rows = rows df @ map row_of (filter retained xs)\<rparr>"
  using assms
proof (induction xs arbitrary: df)
  case Nil
  then show ?case by simp
next
  case (Cons x xs)
  from Cons.prems(1) obtain d where x: "x = JDict d" by (cases x) auto
  show ?case
  proof (cases "retained x")
    case True
    with Cons.prems(2) obtain p where p: "parse_issue x = Inr p" by auto
    let ?df = "\<lparr>columns = issue_columns, rows = rows df @ [row_of x]\<rparr>"
    have c: "pd_concat df (DataFrame_record p) = ?df"
      using p Cons.prems(3) by (rule concat_any)
    have l: "length (row_of x) = 5" using p by (rule row_of_length)
    have ok: "table_ok ?df"
      using Cons.prems(3) l by (auto simp: table_ok_def DataFrame_empty_def)
    have ih: "issues_loop xs ?df =
      Inr \<lparr>columns = (if filter retained xs = [] then columns ?df else issue_columns),
           rows = rows ?df @ map row_of (filter retained xs)\<rparr>"
      using Cons.prems(1,2) ok by (intro Cons.IH) auto
    have step: "issues_loop (x # xs) df = issues_loop xs ?df"
      using True p c x by (auto split: option.splits)
    show ?thesis using True by (simp only: step ih) simp
  next
    case False
    have step: "issues_loop (x # xs) df = issues_loop xs df"
      using False x by (auto split: option.splits)
    have ih: "issues_loop xs df =
      Inr \<lparr>columns = (if filter retained xs = [] then columns df else issue_columns),
           rows = rows df @ map row_of (filter retained xs)\<rparr>"
      using Cons.prems by (intro Cons.IH) auto
    show ?thesis using False by (simp only: step ih) simp
  qed
qed

lemma table_ok_empty: "table_ok DataFrame_empty" by (simp add: table_ok_def)

lemma issue_sequence_run:
  assumes "issue_sequence data = Some xs" and "loads output = Inr data"
  shows "parse_validator_output loads output =
     ([], case issues_loop xs DataFrame_empty of Inl e \<Rightarrow> Inl e | Inr df \<Rightarrow> Inr (Some df))"
  using assms
  by (auto simp: parse_validator_output_def issue_sequence_def split: json.splits option.splits sum.splits)

lemma as_strs_map: "as_strs (map JStr ss) = Some ss"
  by (induction ss) auto

lemma parse_issue_total:
  assumes "is_dict i" and "affects_strings i"
  shows "\<exists>p. parse_issue i = Inr p"
proof -
  from assms(1) obtain d where "i = JDict d" by (cases i) auto
  with assms(2) show ?thesis
    by (auto simp: parse_issue_def py_join_def split: option.splits json.splits)
qed

subsection \<open>Text that is not JSON\<close>

text \<open>
  C1, as stated: text that is not valid JSON makes the flattener raise its malformed-report
  error and never return a null result. It fails at a truncated payload: the decode error
  is caught, a line is printed, and the call returns \<^verbatim>\<open>None\<close>.
\<close>

theorem undecodable_text_returns_none_example:
  "parse_validator_output
     (loads_raising
        [(''[1, 2'', JSONDecodeError ''Expecting ',' delimiter: line 1 column 6 (char 5)'')])
     ''[1, 2'' =
     ([''Error parsing JSON: Expecting ',' delimiter: line 1 column 6 (char 5)''], Inr None)"
  by (simp add: parse_validator_output_def loads_raising_def)

text \<open>
  C1, amended: for every input text at which \<^verbatim>\<open>json.loads\<close> raises a \<^verbatim>\<open>JSONDecodeError\<close>,
  the flattener raises nothing; it prints one line, \<^verbatim>\<open>Error parsing JSON: \<close> followed by the
  message of the error, and returns \<^verbatim>\<open>None\<close>, which is no table. An exception of any other
  class that \<^verbatim>\<open>json.loads\<close> raises is not caught: it leaves the call, and nothing is
  printed.
\<close>

theorem decode_failure_outcome:
  "loads output = Inl f \<Longrightarrow>
   parse_validator_output loads output =
     (case f of
        JSONDecodeError e \<Rightarrow> ([''Error parsing JSON: '' @ e], Inr None)
      | Uncaught x \<Rightarrow> ([], Inl x))"
  by (simp add: parse_validator_output_def split: loads_failure.splits)

theorem decode_failure_outcome_witness:
  "parse_validator_output
     (loads_raising
        [(''{'', JSONDecodeError
            ''Expecting property name enclosed in double quotes: line 1 column 2 (char 1)'')])
     ''{'' =
     ([''Error parsing JSON: Expecting property name enclosed in double quotes: line 1 column 2 (char 1)''],
      Inr None) \<and>
   parse_validator_output
     (loads_raising [(replicate 2000 (CHR ''[''), Uncaught RecursionError)])
     (replicate 2000 (CHR ''['')) = ([], Inl RecursionError)"
proof -
  let ?m = "''Expecting property name enclosed in double quotes: line 1 column 2 (char 1)''"
  have a: "loads_raising [(''{'', JSONDecodeError ?m)] ''{'' = Inl (JSONDecodeError ?m)"
    by (simp add: loads_raising_def)
  have b: "loads_raising [(replicate 2000 (CHR ''[''), Uncaught RecursionError)]
             (replicate 2000 (CHR ''['')) = Inl (Uncaught RecursionError)"
    by (simp add: loads_raising_def)
  from decode_failure_outcome [of "loads_raising [(''{'', JSONDecodeError ?m)]" "''{''"
         "JSONDecodeError ?m"] a
       decode_failure_outcome
         [of "loads_raising [(replicate 2000 (CHR ''[''), Uncaught RecursionError)]"
             "replicate 2000 (CHR ''['')" "Uncaught RecursionError"] b
  show ?thesis by simp
qed

subsection \<open>Normalizing one issue\<close>

text \<open>
  C4, as stated: the normalizer has no failure path on any raw issue mapping. It fails at
  an issue whose affects sequence holds a number: joining raises a type error.
\<close>

theorem parse_issue_fails_example:
  "parse_issue (JDict [(''affects'', JList [JInt 1])]) = Inl TypeError"
  by (simp add: parse_issue_def py_join_def)

text \<open>
  C4, amended: for every raw issue mapping whose affects field is absent or a sequence of
  strings, the normalizer returns exactly one record of the five fields code, severity,
  location, affects, rule, in this order, where code, severity, location and rule are the
  input field, or the empty string when the field is absent, and affects is the strings
  joined with a comma and a space (the empty string when the field is absent).
\<close>

theorem parse_issue_record:
  assumes "map_of d ''affects'' = None \<and> ss = [] \<or>
           map_of d ''affects'' = Some (JList (map JStr ss))"
  shows "parse_issue (JDict d) =
     Inr [(''code'', field d ''code''), (''severity'', field d ''severity''),
          (''location'', field d ''location''), (''affects'', JStr (join_strs '', '' ss)),
          (''rule'', field d ''rule'')]"
  using assms
  by (auto simp: parse_issue_def py_join_def field_def as_strs_map split: option.splits)

theorem parse_issue_record_witness:
  "parse_issue (JDict [(''code'', JStr ''X''),
                       (''affects'', JList [JStr ''a'', JStr ''b'', JStr ''c''])]) =
     Inr [(''code'', JStr ''X''), (''severity'', JStr ''''), (''location'', JStr ''''),
          (''affects'', JStr ''a, b, c''), (''rule'', JStr '''')]"
  using parse_issue_record
    [of "[(''code'', JStr ''X''), (''affects'', JList [JStr ''a'', JStr ''b'', JStr ''c''])]"
        "[''a'', ''b'', ''c'']"]
  by (simp add: field_def)

subsection \<open>Which issues become rows\<close>

lemma flattener_table:
  assumes "loads output = Inr data" and "issue_sequence data = Some xs"
    and "\<forall>i\<in>set xs. is_dict i" and "\<forall>i\<in>set xs. retained i \<longrightarrow> affects_strings i"
  shows "parse_validator_output loads output =
     ([], Inr (Some \<lparr>columns = (if filter retained xs = [] then [] else issue_columns),
                     rows = map row_of (filter retained xs)\<rparr>))"
proof -
  have tot: "\<forall>i\<in>set xs. retained i \<longrightarrow> (\<exists>p. parse_issue i = Inr p)"
    using assms(3,4) parse_issue_total by blast
  have "issues_loop xs DataFrame_empty =
      Inr \<lparr>columns = (if filter retained xs = [] then columns DataFrame_empty else issue_columns),
           rows = rows DataFrame_empty @ map row_of (filter retained xs)\<rparr>"
    using assms(3) tot table_ok_empty by (rule issues_loop_rows)
  then show ?thesis
    using issue_sequence_run [of data xs loads "output"] assms(1,2)
    by (simp add: DataFrame_empty_def)
qed

text \<open>
  C3, as stated: for every decoded report, each issue whose severity is exactly error or
  exactly warning becomes a row. It fails at a report whose one issue has severity error
  and an affects sequence holding a number: normalizing the issue raises a type error and
  no table is returned.
\<close>

theorem retained_issue_without_row_example:
  \<open>parse_validator_output
     (loads_table [(''{"issues": {"issues": [{"severity": "error", "affects": [1]}]}}'',
                    JDict [(''issues'', JDict [(''issues'',
                      JList [JDict [(''severity'', JStr ''error''),
                                    (''affects'', JList [JInt 1])]])])])])
     ''{"issues": {"issues": [{"severity": "error", "affects": [1]}]}}'' = ([], Inl TypeError)\<close>
  by (simp add: parse_validator_output_def loads_table_def parse_issue_def py_join_def)

text \<open>
  C3, amended: for every decoded report that is a mapping whose issues value is absent or
  a mapping, whose inner issues value is absent or a sequence of mappings, and in which
  the affects field of every issue with severity error or warning is absent or a sequence
  of strings, the flattener returns a table whose rows are, one for one and in the
  original order, the normalized records of the issues whose severity is exactly error or
  exactly warning; every issue with another or no severity is dropped.
\<close>

theorem flattener_rows_are_retained_issues:
  assumes "loads output = Inr data" and "issue_sequence data = Some xs"
    and "\<forall>i\<in>set xs. is_dict i" and "\<forall>i\<in>set xs. retained i \<longrightarrow> affects_strings i"
  shows "\<exists>df. parse_validator_output loads output = ([], Inr (Some df)) \<and>
     list_all2 (\<lambda>i r. \<exists>p. parse_issue i = Inr p \<and> r = map (\<lambda>kv. Some (snd kv)) p)
       (filter retained xs) (rows df)"
proof -
  have tot: "\<forall>i\<in>set xs. retained i \<longrightarrow> (\<exists>p. parse_issue i = Inr p)"
    using assms(3,4) parse_issue_total by blast
  have "list_all2 (\<lambda>i r. \<exists>p. parse_issue i = Inr p \<and> r = map (\<lambda>kv. Some (snd kv)) p)
       (filter retained xs) (map row_of (filter retained xs))"
    using tot by (auto simp: list_all2_map2 row_of_def intro!: list_all2_same [THEN iffD2])
  then show ?thesis using flattener_table [of loads "output" data xs] assms by simp
qed

theorem flattener_rows_are_retained_issues_witness:
  "\<exists>df. parse_validator_output (loads_table [(''report'', sample_report)]) ''report'' =
          ([], Inr (Some df)) \<and>
        rows df =
          [[Some (JStr ''A''), Some (JStr ''error''), Some (JStr ''''), Some (JStr ''''),
            Some (JStr '''')],
           [Some (JStr ''B''), Some (JStr ''warning''), Some (JStr ''''), Some (JStr ''''),
            Some (JStr '''')],
           [Some (JStr ''D''), Some (JStr ''error''), Some (JStr ''''), Some (JStr ''''),
            Some (JStr '''')]]"
proof -
  have h1: "loads_table [(''report'', sample_report)] ''report'' = Inr sample_report"
    by (simp add: loads_table_def)
  have h2: "issue_sequence sample_report = Some sample_issues"
    by (simp add: issue_sequence_def sample_report_def)
  have h3: "\<forall>i\<in>set sample_issues. is_dict i"
    by (simp add: sample_issues_def)
  have h4: "\<forall>i\<in>set sample_issues. retained i \<longrightarrow> affects_strings i"
    by (simp add: sample_issues_def)
  from flattener_rows_are_retained_issues
    [of "loads_table [(''report'', sample_report)]" "''report''" sample_report sample_issues]
    h1 h2 h3 h4
  obtain df where
    r: "parse_validator_output (loads_table [(''report'', sample_report)]) ''report'' =
          ([], Inr (Some df))"
    and l: "list_all2 (\<lambda>i r. \<exists>p. parse_issue i = Inr p \<and> r = map (\<lambda>kv. Some (snd kv)) p)
              (filter retained sample_issues) (rows df)"
    by blast
  from l have "rows df =
          [[Some (JStr ''A''), Some (JStr ''error''), Some (JStr ''''), Some (JStr ''''),
            Some (JStr '''')],
           [Some (JStr ''B''), Some (JStr ''warning''), Some (JStr ''''), Some (JStr ''''),
            Some (JStr '''')],
           [Some (JStr ''D''), Some (JStr ''error''), Some (JStr ''''), Some (JStr ''''),
            Some (JStr '''')]]"
    by (auto simp: sample_issues_def list_all2_Cons1 parse_issue_def py_join_def)
  with r show ?thesis by blast
qed

subsection \<open>Payloads of another shape\<close>

text \<open>
  C6, as stated: a decoded payload with wrong types at the issue level is handled by
  defaulting and the flattener never fails on it. It fails at a payload whose issue
  sequence holds a string in the place of an issue: the lookup of its severity raises an
  attribute error.
\<close>

theorem wrong_issue_type_raises_example:
  \<open>parse_validator_output
     (loads_table [(''{"issues": {"issues": ["oops"]}}'',
                    JDict [(''issues'', JDict [(''issues'', JList [JStr ''oops''])])])])
     ''{"issues": {"issues": ["oops"]}}'' = ([], Inl AttributeError)\<close>
  by (simp add: parse_validator_output_def loads_table_def)

text \<open>
  C6, amended: for every decoded payload that is a mapping, a missing issues key at either
  nesting level and a missing field of an issue are handled by defaulting, and the
  flattener does not fail, as long as what is present has the expected type: the outer
  issues value is a mapping, the inner one a sequence of mappings, and the affects field
  of each retained issue is absent or a sequence of strings. With both keys or the inner
  key missing the table is the empty one.
\<close>

theorem well_typed_payload_never_fails:
  assumes "loads output = Inr data" and "issue_sequence data = Some xs"
    and "\<forall>i\<in>set xs. is_dict i" and "\<forall>i\<in>set xs. retained i \<longrightarrow> affects_strings i"
  shows "\<exists>df. parse_validator_output loads output = ([], Inr (Some df)) \<and>
           (if xs = [] then df = DataFrame_empty else length (rows df) \<le> length xs)"
  using flattener_table [of loads "output" data xs] assms
  by (simp add: DataFrame_empty_def)

theorem well_typed_payload_never_fails_witness:
  "parse_validator_output (loads_table [(''{}'', JDict [])]) ''{}'' =
     ([], Inr (Some DataFrame_empty))"
proof -
  have h1: "loads_table [(''{}'', JDict [])] ''{}'' = Inr (JDict [])"
    by (simp add: loads_table_def)
  have h2: "issue_sequence (JDict []) = Some []"
    by (simp add: issue_sequence_def)
  from well_typed_payload_never_fails [of "loads_table [(''{}'', JDict [])]" "''{}''" "JDict []" "[]"]
    h1 h2
  show ?thesis by auto
qed

subsection \<open>The columns of the table\<close>

text \<open>
  C9, as stated: every decoded report without an issue of severity error or warning gives
  an empty table without columns. It fails at a report whose issues value is an empty
  sequence where a mapping is expected: the report decodes, it has no issue at all, and
  the call raises an attribute error instead of returning a table.
\<close>

theorem report_without_issues_raises_example:
  \<open>parse_validator_output (loads_table [(''{"issues": []}'', JDict [(''issues'', JList [])])])
     ''{"issues": []}'' = ([], Inl AttributeError)\<close>
  by (simp add: parse_validator_output_def loads_table_def)

text \<open>
  C9, amended: for every decoded report that is a mapping whose issues value is absent or
  a mapping, whose inner issues value is absent or a sequence of mappings, and in which
  the affects field of every issue with severity error or warning is absent or a sequence
  of strings: when no issue has severity error or warning, the flattener returns an empty
  table that has no columns at all; the five columns code, severity, location, affects,
  rule are present exactly when at least one issue is retained.
\<close>

theorem columns_only_with_retained_issue:
  assumes "loads output = Inr data" and "issue_sequence data = Some xs"
    and "\<forall>i\<in>set xs. is_dict i" and "\<forall>i\<in>set xs. retained i \<longrightarrow> affects_strings i"
  shows "\<exists>df. parse_validator_output loads output = ([], Inr (Some df)) \<and>
           (if list_ex retained xs
            then columns df = issue_columns \<and> rows df \<noteq> []
            else columns df = [] \<and> rows df = [])"
proof -
  have "list_ex retained xs = (filter retained xs \<noteq> [])"
    by (simp add: list_ex_iff filter_empty_conv)
  then show ?thesis
    using flattener_table [of loads "output" data xs] assms by simp
qed

theorem columns_only_with_retained_issue_witness:
  "(\<exists>df. parse_validator_output
           (loads_table [(''info'', JDict [(''issues'', JDict [(''issues'',
              JList [JDict [(''severity'', JStr ''info'')]])])])]) ''info'' =
          ([], Inr (Some df)) \<and> columns df = [] \<and> rows df = []) \<and>
   (\<exists>df. parse_validator_output (loads_table [(''report'', sample_report)]) ''report'' =
          ([], Inr (Some df)) \<and>
         columns df = [''code'', ''severity'', ''location'', ''affects'', ''rule''])"
proof -
  let ?xs = "[JDict [(''severity'', JStr ''info'')]]"
  let ?data = "JDict [(''issues'', JDict [(''issues'', JList ?xs)])]"
  have a1: "loads_table [(''info'', ?data)] ''info'' = Inr ?data"
    by (simp add: loads_table_def)
  have a2: "issue_sequence ?data = Some ?xs"
    by (simp add: issue_sequence_def)
  have first: "\<exists>df. parse_validator_output (loads_table [(''info'', ?data)]) ''info'' =
          ([], Inr (Some df)) \<and> columns df = [] \<and> rows df = []"
    using columns_only_with_retained_issue [of "loads_table [(''info'', ?data)]" "''info''" ?data ?xs]
      a1 a2 by simp
  have h1: "loads_table [(''report'', sample_report)] ''report'' = Inr sample_report"
    by (simp add: loads_table_def)
  have h2: "issue_sequence sample_report = Some sample_issues"
    by (simp add: issue_sequence_def sample_report_def)
  have h3: "\<forall>i\<in>set sample_issues. is_dict i"
    by (simp add: sample_issues_def)
  have h4: "\<forall>i\<in>set sample_issues. retained i \<longrightarrow> affects_strings i"
    by (simp add: sample_issues_def)
  have h5: "list_ex retained sample_issues"
    by (simp add: sample_issues_def)
  have second: "\<exists>df. parse_validator_output (loads_table [(''report'', sample_report)]) ''report'' =
          ([], Inr (Some df)) \<and>
         columns df = [''code'', ''severity'', ''location'', ''affects'', ''rule'']"
    using columns_only_with_retained_issue
      [of "loads_table [(''report'', sample_report)]" "''report''" sample_report sample_issues]
      h1 h2 h3 h4 h5 by (auto simp: issue_columns_def)
  from first second show ?thesis by blast
qed

section \<open>Properties of the field catalog\<close>

text \<open>
  C8: the field catalog is a fixed constant in which each of the column names location,
  code, severity and rule resolves to a non-empty description; it takes no argument, so it
  is independent of any table. Its subCode entry is in the catalog and is not one of the
  columns of the table.
\<close>

theorem catalog_describes_columns:
  "description get_val_dictionary ''location'' = Some ''File with the validation issue.'' \<and>
   description get_val_dictionary ''code'' = Some ''Code of the validation issue.'' \<and>
   description get_val_dictionary ''severity'' =
     Some ''Severity of the issue (e.g., warning, error).'' \<and>
   description get_val_dictionary ''rule'' = Some ''Validation rule that triggered the issue.'' \<and>
   description get_val_dictionary ''subCode'' =
     Some ''Subcode providing additional issue details.'' \<and>
   ''subCode'' \<notin> set issue_columns \<and>
   map fst get_val_dictionary = [''location'', ''code'', ''subCode'', ''severity'', ''rule'']"
  by (simp add: description_def get_val_dictionary_def issue_columns_def)

section \<open>Properties of the path partitioner\<close>

subsection \<open>The three patterns on a literal root\<close>
























subsection \<open>The patterns on any root, and the files beneath a subject\<close>















subsection \<open>A dataset without subjects\<close>




subsection \<open>The root-level files in every list\<close>




subsection \<open>The keys of the manifest\<close>



subsection \<open>The trailing separator of the root\<close>

text \<open>
  C10: for every dataset root path written without a trailing separator, the partitioner
  returns the same result for the path and for the path with one separator appended.
\<close>

theorem trailing_slash_irrelevant:
  "\<not> endswith path ''/'' \<Longrightarrow>
   build_subject_paths h (path @ ''/'') = build_subject_paths h path"
  by (simp add: build_subject_paths_def endswith_def)

theorem trailing_slash_irrelevant_witness:
  "\<not> endswith ''ds'' ''/'' \<and>
   build_subject_paths sample_host ''ds/'' = build_subject_paths sample_host ''ds''"
proof -
  have h: "\<not> endswith ''ds'' ''/''" by (simp add: endswith_def suffix_to_prefix)
  from trailing_slash_irrelevant [OF h, of sample_host] h show ?thesis by simp
qed

end
